theory Spec2Isabelle
  imports Complex_Main "HOL-Library.AList"
begin

section \<open>JavaScript values\<close>

text \<open>
  Device payloads and the metric fields of a reading hold arbitrary decoded JSON. Numbers
  are modelled as reals: the division operator of the source is the division of the
  model, and rounding of doubles is left out.
\<close>

datatype jsval =
    JUndefined
  | JNull
  | JBool bool
  | JNum real
  | JStr string
  | JArr "jsval list"
  | JObj "(string \<times> jsval) list"

text \<open>Truthiness, as used by \<open>||\<close>, \<open>!\<close> and \<open>if\<close>.\<close>

fun truthy :: "jsval \<Rightarrow> bool" where
  "truthy JUndefined = False"
| "truthy JNull = False"
| "truthy (JBool b) = b"
| "truthy (JNum x) = (x \<noteq> 0)"
| "truthy (JStr s) = (s \<noteq> [])"
| "truthy (JArr xs) = True"
| "truthy (JObj kvs) = True"

fun nullish :: "jsval \<Rightarrow> bool" where
  "nullish JUndefined = True"
| "nullish JNull = True"
| "nullish v = False"

text \<open>\<open>typeof v === "number"\<close>\<close>

fun is_number :: "jsval \<Rightarrow> bool" where
  "is_number (JNum x) = True"
| "is_number v = False"

text \<open>The value of a decimal digit.\<close>

definition digit_of :: "char \<Rightarrow> nat option" where
  "digit_of c = map_of (zip ''0123456789'' [0, 1, 2, 3, 4, 5, 6, 7, 8, 9]) c"

fun digits_val :: "nat \<Rightarrow> string \<Rightarrow> nat option" where
  "digits_val acc [] = Some acc"
| "digits_val acc (c # cs) =
     (case digit_of c of None \<Rightarrow> None | Some d \<Rightarrow> digits_val (10 * acc + d) cs)"

text \<open>A property key is an index when it is a canonical decimal numeral.\<close>

definition array_index :: "string \<Rightarrow> nat option" where
  "array_index k =
     (case k of
        [] \<Rightarrow> None
      | c # cs \<Rightarrow> if c = CHR ''0'' \<and> cs \<noteq> [] then None else digits_val 0 k)"

text \<open>
  \<open>member v k\<close> is the property read \<open>v[k]\<close> on a value that is neither \<open>null\<close> nor
  \<open>undefined\<close> (on those two the read throws, which the callers check first). Objects
  have distinct keys; a string is indexed by position.
\<close>

fun member :: "jsval \<Rightarrow> string \<Rightarrow> jsval" where
  "member (JObj kvs) k = (case map_of kvs k of None \<Rightarrow> JUndefined | Some v \<Rightarrow> v)"
| "member (JArr xs) k =
     (if k = ''length'' then JNum (real (length xs))
      else case array_index k of
             None \<Rightarrow> JUndefined
           | Some i \<Rightarrow> if i < length xs then xs ! i else JUndefined)"
| "member (JStr s) k =
     (if k = ''length'' then JNum (real (length s))
      else case array_index k of
             None \<Rightarrow> JUndefined
           | Some i \<Rightarrow> if i < length s then JStr [s ! i] else JUndefined)"
| "member v k = JUndefined"

text \<open>\<open>v / d\<close> for a value already known to be a number.\<close>

fun divided :: "jsval \<Rightarrow> real \<Rightarrow> jsval" where
  "divided (JNum x) d = JNum (x / d)"
| "divided v d = v"

text \<open>\<open>v > d\<close> for a value already known to be a number.\<close>

fun exceeds :: "jsval \<Rightarrow> real \<Rightarrow> bool" where
  "exceeds (JNum x) d = (d < x)"
| "exceeds v d = False"

section \<open>Readings and configurations\<close>

text \<open>
  The single-device server keeps the seven fields of \<open>metrics\<close>; the multi-device server
  keeps a \<open>reading\<close>, which carries the identity of the device as well. The field
  \<open>power\<close> of the source is \<open>power_w\<close> here, \<open>id\<close> is \<open>dev_id\<close> and \<open>type\<close> is
  \<open>dev_type\<close>.
\<close>

record metrics =
  timestamp :: string
  power_state :: jsval
  current :: jsval
  power_w :: jsval
  voltage :: jsval
  energy :: jsval
  connected :: bool

record reading = metrics +
  dev_id :: string
  name :: string
  dev_type :: string
  room :: string
  ip :: string
  version :: string
  enabled :: jsval

text \<open>An entry of \<open>devices.json\<close>. A missing string field is the empty string.\<close>

record device_config =
  cfg_id :: string
  cfg_name :: string
  cfg_device_id :: string
  cfg_device_key :: string
  cfg_device_ip :: string
  cfg_version :: string
  cfg_type :: string
  cfg_room :: string
  cfg_enabled :: jsval

text \<open>
  \<open>devices.json\<close>: absent, present with text that \<open>JSON.parse\<close> rejects (with the
  parser's message), or present with an array of entries. Only the server writes the file
  in this model.
\<close>

datatype cfgfile = NoFile | Unparsable string | Configs "device_config list"

record env =
  tuya_device_id :: string
  tuya_device_key :: string
  tuya_device_ip :: string

section \<open>The multi-device server\<close>

type_synonym addr = nat

text \<open>
  A TuyAPI instance whose listeners have been registered. The listeners close over the
  configuration and over \<open>currentData\<close>, the object that \<open>deviceData.get\<close> returned when the
  connection was made.
\<close>

record tuya_instance =
  inst_config :: device_config
  inst_currentData :: "addr option"

text \<open>A toggle handler suspended at \<open>await device.set\<close>.\<close>

record pending_set =
  ps_deviceId :: string
  ps_currentData :: addr
  ps_newState :: jsval

datatype link_cmd =
    LinkConnect string
  | LinkSet string jsval
  | LinkGet string
  | LinkDisconnect string

datatype message =
    DeviceData string reading
  | DeviceError string string
  | DeviceDisconnect string
  | DeviceConnect string "reading option"
  | DeviceRemoved string

record csv_record =
  row :: reading
  device_id :: string
  device_name :: string

text \<open>
  The three maps of the source are JavaScript \<open>Map\<close>s: insertion ordered, \<open>set\<close> on a
  present key keeps its place. Reading objects live in \<open>heap\<close>, and \<open>deviceData\<close> maps a
  device id to the address of its object, so that a closure holding an old object is
  distinguished from the map's current entry. \<open>broadcasts\<close>, \<open>csv_log\<close> and \<open>link_log\<close>
  record what was handed to \<open>broadcastToClients\<close>, to a CSV writer and to a TuyAPI
  instance, in order.
\<close>

record server =
  devices :: "(string \<times> nat) list"
  deviceData :: "(string \<times> addr) list"
  deviceWriters :: "(string \<times> string) list"
  heap :: "reading list"
  instances :: "tuya_instance list"
  timers :: "(nat \<times> device_config) list"
  connecting :: "device_config list"
  inflight :: "pending_set list"
  refreshing :: bool
  config_file :: cfgfile
  csv_files :: "string list"
  broadcasts :: "message list"
  csv_log :: "(string \<times> csv_record list) list"
  link_log :: "link_cmd list"

definition initializeDeviceData :: "device_config \<Rightarrow> string \<Rightarrow> reading" where
  "initializeDeviceData deviceConfig now =
     \<lparr> timestamp = now,
       power_state = JBool False,
       current = JNum 0,
       power_w = JNum 0,
       voltage = JNum 0,
       energy = JNum 0,
       connected = False,
       dev_id = cfg_id deviceConfig,
       name = cfg_name deviceConfig,
       dev_type = cfg_type deviceConfig,
       room = cfg_room deviceConfig,
       ip = cfg_device_ip deviceConfig,
       version = cfg_version deviceConfig,
       enabled = (if truthy (cfg_enabled deviceConfig) then cfg_enabled deviceConfig
                  else JBool False) \<rparr>"

definition csv_path :: "string \<Rightarrow> string" where
  "csv_path deviceId = deviceId @ ''_data.csv''"

text \<open>The writer is identified by its path; a file that does not exist gets its header row.\<close>

definition initializeCSVWriter :: "string \<Rightarrow> server \<Rightarrow> server" where
  "initializeCSVWriter deviceId st =
     (if csv_path deviceId \<in> set (csv_files st)
      then st
      else st \<lparr> csv_files := csv_files st @ [csv_path deviceId],
                csv_log := csv_log st @ [(csv_path deviceId, [])] \<rparr>)"

definition select_dps :: "jsval \<Rightarrow> jsval" where
  "select_dps data = (if truthy (member data ''dps'') then member data ''dps'' else data)"

definition carried :: "jsval \<Rightarrow> string \<Rightarrow> jsval \<Rightarrow> jsval" where
  "carried dps k previous = (if member dps k \<noteq> JUndefined then member dps k else previous)"

definition convert_units :: "reading \<Rightarrow> reading" where
  "convert_units updatedData =
     (let u1 = (if is_number (voltage updatedData)
                then updatedData \<lparr> voltage := divided (voltage updatedData) 10 \<rparr>
                else updatedData);
          u2 = (if is_number (power_w u1)
                then u1 \<lparr> power_w := divided (power_w u1) 10 \<rparr>
                else u1);
          u3 = (if is_number (current u2) \<and> exceeds (current u2) 1000
                then u2 \<lparr> current := divided (current u2) 10 \<rparr>
                else u2)
      in if is_number (energy u3)
         then u3 \<lparr> energy := divided (energy u3) 1000 \<rparr>
         else u3)"

definition merge_points :: "jsval \<Rightarrow> string \<Rightarrow> reading \<Rightarrow> reading" where
  "merge_points dps now currentData =
     currentData \<lparr> timestamp := now,
                   power_state := carried dps ''1'' (power_state currentData),
                   current := carried dps ''18'' (current currentData),
                   power_w := carried dps ''19'' (power_w currentData),
                   voltage := carried dps ''20'' (voltage currentData),
                   energy := carried dps ''22'' (energy currentData),
                   connected := True \<rparr>"

text \<open>
  \<open>handleDeviceData\<close>: a \<open>null\<close> or \<open>undefined\<close> payload makes \<open>data.dps\<close> throw, and the
  \<open>catch\<close> only logs. Otherwise the reading is looked up, a fresh object is built from it
  and the payload, converted, stored, written to the CSV file and broadcast.
\<close>

definition handleDeviceData :: "string \<Rightarrow> jsval \<Rightarrow> string \<Rightarrow> server \<Rightarrow> server" where
  "handleDeviceData deviceId data now st =
     (if nullish data then st
      else
        case map_of (deviceData st) deviceId of
          None \<Rightarrow> st
        | Some a \<Rightarrow>
            let updatedData = convert_units (merge_points (select_dps data) now (heap st ! a));
                st1 = st \<lparr> heap := heap st @ [updatedData],
                          deviceData := AList.update deviceId (length (heap st)) (deviceData st) \<rparr>;
                st2 = (case map_of (deviceWriters st1) deviceId of
                         None \<Rightarrow> st1
                       | Some writer \<Rightarrow>
                           st1 \<lparr> csv_log := csv_log st1 @
                                   [(writer, [\<lparr> row = updatedData, device_id = deviceId,
                                               device_name = name updatedData \<rparr>])] \<rparr>)
            in st2 \<lparr> broadcasts := broadcasts st2 @ [DeviceData deviceId updatedData] \<rparr>)"

text \<open>The reading that \<open>deviceData.get(deviceId)\<close> returns.\<close>

definition reading_of :: "server \<Rightarrow> string \<Rightarrow> reading option" where
  "reading_of st deviceId = map_option (\<lambda>a. heap st ! a) (map_of (deviceData st) deviceId)"

text \<open>\<open>Array.from(deviceData.values())\<close>, the body of \<open>GET /api/devices\<close>.\<close>

definition listSnapshots :: "server \<Rightarrow> reading list" where
  "listSnapshots st = map (\<lambda>(k, a). heap st ! a) (deviceData st)"

text \<open>\<open>currentData.connected = flag; deviceData.set(deviceId, currentData)\<close>\<close>

definition set_connected :: "string \<Rightarrow> addr option \<Rightarrow> bool \<Rightarrow> server \<Rightarrow> server" where
  "set_connected deviceId currentData flag st =
     (case currentData of
        None \<Rightarrow> st
      | Some a \<Rightarrow>
          st \<lparr> heap := (heap st)[a := (heap st ! a) \<lparr> connected := flag \<rparr>],
               deviceData := AList.update deviceId a (deviceData st) \<rparr>)"

datatype outcome = Resolved | Rejected string

text \<open>
  \<open>connectToDevice\<close> up to its first \<open>await\<close>: the TuyAPI instance is created and
  \<open>find\<close> is issued. The call then waits in \<open>connecting\<close>. When the constructor
  arguments throw (an entry without \<open>device_key\<close> fails at \<open>.replace\<close>), the source runs
  its \<open>catch\<close> block in the same task and issues nothing to the link; here every failure
  of the \<open>try\<close> block arrives as a rejected \<open>ConnectSettles\<close>, after an attempt has been
  logged, so the model logs at least the attempts of the source.
\<close>

definition connectToDevice_begin :: "device_config \<Rightarrow> server \<Rightarrow> server" where
  "connectToDevice_begin deviceConfig st =
     st \<lparr> connecting := connecting st @ [deviceConfig],
          link_log := link_log st @ [LinkConnect (cfg_id deviceConfig)] \<rparr>"

text \<open>
  The rest of \<open>connectToDevice\<close>, once \<open>find\<close> and \<open>connect\<close> have settled. On success
  the instance is stored, \<open>currentData\<close> is read once and the three listeners are
  registered; on failure the \<open>catch\<close> block reads the reading again, marks it and
  schedules a retry after 15 seconds.
\<close>

definition connectToDevice_finish :: "device_config \<Rightarrow> outcome \<Rightarrow> server \<Rightarrow> server" where
  "connectToDevice_finish deviceConfig result st =
     (let deviceId = cfg_id deviceConfig in
      case result of
        Resolved \<Rightarrow>
          let st1 = st \<lparr> devices := AList.update deviceId (length (instances st)) (devices st) \<rparr>;
              currentData = map_of (deviceData st1) deviceId;
              st2 = set_connected deviceId currentData True st1;
              st3 = st2 \<lparr> instances := instances st2 @
                             [\<lparr> inst_config = deviceConfig, inst_currentData = currentData \<rparr>] \<rparr>
          in st3 \<lparr> broadcasts := broadcasts st3 @
                      [DeviceConnect deviceId (map_option (\<lambda>a. heap st3 ! a) currentData)] \<rparr>
      | Rejected msg \<Rightarrow>
          let currentData = map_of (deviceData st) deviceId;
              st1 = set_connected deviceId currentData False st;
              st2 = st1 \<lparr> broadcasts := broadcasts st1 @ [DeviceError deviceId msg] \<rparr>
          in st2 \<lparr> timers := timers st2 @ [(15000, deviceConfig)] \<rparr>)"

text \<open>The \<open>error\<close> listener of an instance.\<close>

definition on_error :: "tuya_instance \<Rightarrow> string \<Rightarrow> server \<Rightarrow> server" where
  "on_error inst msg st =
     (let deviceId = cfg_id (inst_config inst);
          st1 = set_connected deviceId (inst_currentData inst) False st
      in st1 \<lparr> broadcasts := broadcasts st1 @ [DeviceError deviceId msg] \<rparr>)"

text \<open>The \<open>disconnect\<close> listener of an instance.\<close>

definition on_disconnect :: "tuya_instance \<Rightarrow> server \<Rightarrow> server" where
  "on_disconnect inst st =
     (let deviceId = cfg_id (inst_config inst);
          st1 = set_connected deviceId (inst_currentData inst) False st;
          st2 = st1 \<lparr> broadcasts := broadcasts st1 @ [DeviceDisconnect deviceId] \<rparr>
      in st2 \<lparr> timers := timers st2 @ [(10000, inst_config inst)] \<rparr>)"

definition loadDeviceConfig :: "cfgfile \<Rightarrow> env \<Rightarrow> device_config list" where
  "loadDeviceConfig file e =
     (case file of
        Configs config \<Rightarrow> config
      | _ \<Rightarrow>
          if tuya_device_id e \<noteq> []
          then [\<lparr> cfg_id = ''device_1'', cfg_name = ''Smart Plug'',
                   cfg_device_id = tuya_device_id e, cfg_device_key = tuya_device_key e,
                   cfg_device_ip = tuya_device_ip e, cfg_version = ''3.4'',
                   cfg_type = ''smart_plug'', cfg_room = ''Unknown'',
                   cfg_enabled = JBool True \<rparr>]
          else [])"

text \<open>
  \<open>deviceData.set(id, initializeDeviceData(config)); deviceWriters.set(id,
  initializeCSVWriter(id, name))\<close>, as in \<open>connectToAllDevices\<close> and in the add endpoint.
\<close>

definition register_device :: "device_config \<Rightarrow> string \<Rightarrow> server \<Rightarrow> server" where
  "register_device deviceConfig now st =
     (let st1 = st \<lparr> heap := heap st @ [initializeDeviceData deviceConfig now],
                     deviceData := AList.update (cfg_id deviceConfig) (length (heap st))
                                     (deviceData st) \<rparr>;
          st2 = initializeCSVWriter (cfg_id deviceConfig) st1
      in st2 \<lparr> deviceWriters := AList.update (cfg_id deviceConfig)
                                   (csv_path (cfg_id deviceConfig)) (deviceWriters st2) \<rparr>)"

text \<open>
  \<open>connectToAllDevices\<close>: every configured device gets a reading and a writer; a timer
  for \<open>connectToDevice\<close> is set for the enabled ones only, 2 seconds apart; the periodic
  refresh is started.
\<close>

definition connectToAllDevices :: "env \<Rightarrow> string \<Rightarrow> server \<Rightarrow> server" where
  "connectToAllDevices e now st =
     (let deviceConfigs = loadDeviceConfig (config_file st) e in
      if deviceConfigs = [] then st
      else
        let enabledDevices = filter (\<lambda>device. truthy (cfg_enabled device)) deviceConfigs;
            st1 = fold (\<lambda>deviceConfig. register_device deviceConfig now) deviceConfigs st;
            st2 = st1 \<lparr> timers := timers st1 @
                          map (\<lambda>(i, deviceConfig). (i * 2000, deviceConfig))
                            (enumerate 0 enabledDevices) \<rparr>
        in st2 \<lparr> refreshing := True \<rparr>)"

text \<open>
  One iteration of the loop in \<open>startPeriodicRefresh\<close>: \<open>device.get()\<close> is issued when the
  instance reports that it is connected. Whatever the call does, resolve, time out or
  fail, only the console sees it.
\<close>

definition refresh_device :: "string \<Rightarrow> bool \<Rightarrow> outcome \<Rightarrow> server \<Rightarrow> server" where
  "refresh_device deviceId isConnected result st =
     (case map_of (devices st) deviceId of
        None \<Rightarrow> st
      | Some device \<Rightarrow>
          if isConnected then st \<lparr> link_log := link_log st @ [LinkGet deviceId] \<rparr> else st)"

section \<open>Commands\<close>

datatype reply =
    Success
  | ToggleSuccess string jsval
  | AddSuccess device_config
  | Status400 string
  | Status404 string
  | Status500 string
  | WsError string string
  | InitialData "reading list"
  | ReadingJson reading

text \<open>
  The WebSocket toggle up to \<open>await device.set\<close>. An empty \<open>deviceId\<close> is falsy and the
  message is ignored. The result is the state and what is sent to the socket, if anything.
\<close>

definition ws_toggle_begin :: "string \<Rightarrow> server \<Rightarrow> server \<times> reply option" where
  "ws_toggle_begin deviceId st =
     (if deviceId = [] then (st, None)
      else
        case (map_of (devices st) deviceId, map_of (deviceData st) deviceId) of
          (Some device, Some a) \<Rightarrow>
            if connected (heap st ! a)
            then
              let newState = JBool (\<not> truthy (power_state (heap st ! a)))
              in (st \<lparr> inflight := inflight st @
                         [\<lparr> ps_deviceId = deviceId, ps_currentData = a,
                            ps_newState = newState \<rparr>],
                       link_log := link_log st @ [LinkSet deviceId newState] \<rparr>, None)
            else (st, Some (WsError deviceId ''Device not connected''))
        | _ \<Rightarrow> (st, Some (WsError deviceId ''Device not connected'')))"

text \<open>The WebSocket toggle after \<open>device.set\<close> has settled.\<close>

definition ws_toggle_finish ::
  "pending_set \<Rightarrow> outcome \<Rightarrow> string \<Rightarrow> server \<Rightarrow> server \<times> reply option" where
  "ws_toggle_finish p result now st =
     (case result of
        Resolved \<Rightarrow>
          let a = ps_currentData p;
              st1 = st \<lparr> heap := (heap st)[a := (heap st ! a)
                                      \<lparr> timestamp := now, power_state := ps_newState p \<rparr>],
                        deviceData := AList.update (ps_deviceId p) a (deviceData st) \<rparr>
          in (st1 \<lparr> broadcasts := broadcasts st1 @
                       [DeviceData (ps_deviceId p) (heap st1 ! a)] \<rparr>, None)
      | Rejected msg \<Rightarrow>
          (st, Some (WsError (ps_deviceId p) (''Failed to toggle device: '' @ msg))))"

text \<open>\<open>POST /api/devices/:deviceId/toggle\<close> up to \<open>await device.set\<close>, and after it.\<close>

definition rest_toggle_begin :: "string \<Rightarrow> server \<Rightarrow> server \<times> (reply + jsval)" where
  "rest_toggle_begin deviceId st =
     (case (map_of (devices st) deviceId, map_of (deviceData st) deviceId) of
        (Some device, Some a) \<Rightarrow>
          if connected (heap st ! a)
          then
            let newState = JBool (\<not> truthy (power_state (heap st ! a)))
            in (st \<lparr> link_log := link_log st @ [LinkSet deviceId newState] \<rparr>, Inr newState)
          else (st, Inl (Status400 ''Device not connected''))
      | _ \<Rightarrow> (st, Inl (Status400 ''Device not connected'')))"

definition rest_toggle_finish :: "string \<Rightarrow> jsval \<Rightarrow> outcome \<Rightarrow> reply" where
  "rest_toggle_finish deviceId newState result =
     (case result of
        Resolved \<Rightarrow> ToggleSuccess deviceId newState
      | Rejected msg \<Rightarrow> Status500 msg)"

text \<open>\<open>GET /api/devices/:deviceId\<close>\<close>

definition get_device :: "string \<Rightarrow> server \<Rightarrow> reply" where
  "get_device deviceId st =
     (case reading_of st deviceId of
        Some data \<Rightarrow> ReadingJson data
      | None \<Rightarrow> Status404 ''Device not found'')"

text \<open>
  \<open>POST /api/devices\<close>. The body has the fields of a configuration entry; its \<open>enabled\<close>
  is not read. The new device is connected at once.
\<close>

definition add_device :: "device_config \<Rightarrow> string \<Rightarrow> server \<Rightarrow> server \<times> reply" where
  "add_device deviceConfig now st =
     (if cfg_id deviceConfig = [] \<or> cfg_device_id deviceConfig = [] \<or>
         cfg_device_key deviceConfig = [] \<or> cfg_device_ip deviceConfig = []
      then (st, Status400 ''Missing required fields'')
      else
        case config_file st of
          Unparsable msg \<Rightarrow> (st, Status500 msg)
        | file \<Rightarrow>
            let currentConfig = (case file of Configs config \<Rightarrow> config | _ \<Rightarrow> []) in
            if find (\<lambda>d. cfg_id d = cfg_id deviceConfig) currentConfig \<noteq> None
            then (st, Status400 ''Device ID already exists'')
            else
              let newDevice =
                    \<lparr> cfg_id = cfg_id deviceConfig,
                      cfg_name = (if cfg_name deviceConfig \<noteq> [] then cfg_name deviceConfig
                                  else ''Device '' @ cfg_id deviceConfig),
                      cfg_device_id = cfg_device_id deviceConfig,
                      cfg_device_key = cfg_device_key deviceConfig,
                      cfg_device_ip = cfg_device_ip deviceConfig,
                      cfg_version = (if cfg_version deviceConfig \<noteq> []
                                     then cfg_version deviceConfig else ''3.4''),
                      cfg_type = (if cfg_type deviceConfig \<noteq> [] then cfg_type deviceConfig
                                  else ''smart_plug''),
                      cfg_room = (if cfg_room deviceConfig \<noteq> [] then cfg_room deviceConfig
                                  else ''Unknown''),
                      cfg_enabled = JBool True \<rparr>;
                  st1 = st \<lparr> config_file := Configs (currentConfig @ [newDevice]) \<rparr>;
                  st2 = register_device newDevice now st1
              in (connectToDevice_begin newDevice st2, AddSuccess newDevice))"

text \<open>\<open>DELETE /api/devices/:deviceId\<close>\<close>

definition remove_device :: "string \<Rightarrow> server \<Rightarrow> server \<times> reply" where
  "remove_device deviceId st =
     (let st1 = (case map_of (devices st) deviceId of
                   None \<Rightarrow> st
                 | Some device \<Rightarrow>
                     st \<lparr> devices := AList.delete deviceId (devices st),
                          link_log := link_log st @ [LinkDisconnect deviceId] \<rparr>);
          st2 = st1 \<lparr> deviceData := AList.delete deviceId (deviceData st1),
                      deviceWriters := AList.delete deviceId (deviceWriters st1) \<rparr>
      in case config_file st2 of
           Unparsable msg \<Rightarrow> (st2, Status500 msg)
         | NoFile \<Rightarrow>
             (st2 \<lparr> broadcasts := broadcasts st2 @ [DeviceRemoved deviceId] \<rparr>, Success)
         | Configs currentConfig \<Rightarrow>
             (st2 \<lparr> config_file := Configs (filter (\<lambda>d. cfg_id d \<noteq> deviceId) currentConfig),
                    broadcasts := broadcasts st2 @ [DeviceRemoved deviceId] \<rparr>, Success))"


text \<open>The entries of \<open>devices.json\<close>, when it exists and parses.\<close>

definition persisted :: "server \<Rightarrow> device_config list" where
  "persisted st = (case config_file st of Configs config \<Rightarrow> config | _ \<Rightarrow> [])"

text \<open>The check of the add endpoint for required fields.\<close>

definition missing_fields :: "device_config \<Rightarrow> bool" where
  "missing_fields c \<longleftrightarrow>
     cfg_id c = [] \<or> cfg_device_id c = [] \<or> cfg_device_key c = [] \<or> cfg_device_ip c = []"

section \<open>The event loop\<close>

text \<open>
  Each event is one task of the event loop: a timer that fires, a promise that settles,
  an event of a TuyAPI instance, or a request. Instances, timers, pending connections and
  pending \<open>set\<close> calls are named by their position; an event that names none is not
  enabled and leaves the state as it is. Every task reads the clock once: \<open>now\<close> is
  the value of \<open>new Date().toISOString()\<close> in it.
\<close>

datatype event =
    TimerFires nat
  | ConnectSettles nat outcome
  | DataEvent nat jsval
  | ErrorEvent nat string
  | DisconnectEvent nat
  | RefreshStep string bool outcome
  | WsToggle string
  | SetSettles nat outcome
  | RestToggle string
  | AddDevice device_config
  | RemoveDevice string

definition without :: "nat \<Rightarrow> 'a list \<Rightarrow> 'a list" where
  "without k xs = take k xs @ drop (Suc k) xs"

definition step :: "string \<Rightarrow> event \<Rightarrow> server \<Rightarrow> server" where
  "step now ev st =
     (case ev of
        TimerFires k \<Rightarrow>
          if k < length (timers st)
          then connectToDevice_begin (snd (timers st ! k))
                 (st \<lparr> timers := without k (timers st) \<rparr>)
          else st
      | ConnectSettles k result \<Rightarrow>
          if k < length (connecting st)
          then connectToDevice_finish (connecting st ! k) result
                 (st \<lparr> connecting := without k (connecting st) \<rparr>)
          else st
      | DataEvent i data \<Rightarrow>
          if i < length (instances st)
          then handleDeviceData (cfg_id (inst_config (instances st ! i))) data now st
          else st
      | ErrorEvent i msg \<Rightarrow>
          if i < length (instances st) then on_error (instances st ! i) msg st else st
      | DisconnectEvent i \<Rightarrow>
          if i < length (instances st) then on_disconnect (instances st ! i) st else st
      | RefreshStep deviceId isConnected result \<Rightarrow>
          if refreshing st then refresh_device deviceId isConnected result st else st
      | WsToggle deviceId \<Rightarrow> fst (ws_toggle_begin deviceId st)
      | SetSettles k result \<Rightarrow>
          if k < length (inflight st)
          then fst (ws_toggle_finish (inflight st ! k) result now
                      (st \<lparr> inflight := without k (inflight st) \<rparr>))
          else st
      | RestToggle deviceId \<Rightarrow> fst (rest_toggle_begin deviceId st)
      | AddDevice deviceConfig \<Rightarrow> fst (add_device deviceConfig now st)
      | RemoveDevice deviceId \<Rightarrow> fst (remove_device deviceId st))"

definition run :: "(string \<times> event) list \<Rightarrow> server \<Rightarrow> server" where
  "run evs st = fold (\<lambda>(now, ev). step now ev) evs st"

text \<open>The server before \<open>connectToAllDevices\<close>: empty maps, the files that are on disk.\<close>

definition initial_server :: "cfgfile \<Rightarrow> string list \<Rightarrow> server" where
  "initial_server file csvs =
     \<lparr> devices = [], deviceData = [], deviceWriters = [], heap = [], instances = [],
       timers = [], connecting = [], inflight = [], refreshing = False,
       config_file = file, csv_files = csvs, broadcasts = [], csv_log = [],
       link_log = [] \<rparr>"

text \<open>
  A device \<open>D\<close> is dormant when its reading \<open>r\<close> sits at address \<open>a\<close> and nothing in the
  server can reach it: no instance is stored for it, no timer, pending connection,
  registered listener or pending \<open>set\<close> belongs to it or holds its object, no other map
  entry shares its object, it is listed in \<open>devices.json\<close>, and no connection to it was
  ever attempted.
\<close>

definition dormant :: "string \<Rightarrow> addr \<Rightarrow> reading \<Rightarrow> server \<Rightarrow> bool" where
  "dormant D a r st \<longleftrightarrow>
     map_of (deviceData st) D = Some a \<and>
     a < length (heap st) \<and>
     heap st ! a = r \<and>
     (\<forall>k. k \<noteq> D \<longrightarrow> map_of (deviceData st) k \<noteq> Some a) \<and>
     map_of (devices st) D = None \<and>
     D \<notin> cfg_id ` snd ` set (timers st) \<and>
     D \<notin> cfg_id ` set (connecting st) \<and>
     D \<notin> cfg_id ` inst_config ` set (instances st) \<and>
     Some a \<notin> inst_currentData ` set (instances st) \<and>
     D \<notin> ps_deviceId ` set (inflight st) \<and>
     a \<notin> ps_currentData ` set (inflight st) \<and>
     D \<in> cfg_id ` set (persisted st) \<and>
     LinkConnect D \<notin> set (link_log st)"

text \<open>
  Two facts about the state in which \<open>connectToAllDevices\<close> registers the devices: every
  map entry points into the heap, and nothing has been started yet.
\<close>

definition allocated :: "server \<Rightarrow> bool" where
  "allocated st \<longleftrightarrow> (\<forall>k b. map_of (deviceData st) k = Some b \<longrightarrow> b < length (heap st))"

definition idle :: "server \<Rightarrow> bool" where
  "idle st \<longleftrightarrow> devices st = [] \<and> timers st = [] \<and> connecting st = [] \<and> instances st = [] \<and>
     inflight st = [] \<and> link_log st = []"

section \<open>The single-device server\<close>

datatype single_message =
    ConnectionMsg bool "string option"
  | ErrorMsg string
  | DataMsg metrics

datatype get_outcome = GetResolved jsval | GetRejected string

text \<open>
  \<open>sent\<close> is what went to \<open>broadcastToClients\<close>, \<open>written\<close> what went to the CSV writer,
  \<open>retries\<close> the delays of the pending \<open>setTimeout(connectToDevice, _)\<close>.
\<close>

record single_server =
  latestDeviceData :: metrics
  deviceConnected :: bool
  sent :: "single_message list"
  written :: "metrics list"
  retries :: "nat list"

definition convert_units_single :: "metrics \<Rightarrow> metrics" where
  "convert_units_single d =
     (let d1 = (if is_number (voltage d)
                then d \<lparr> voltage := divided (voltage d) 10 \<rparr>
                else d);
          d2 = (if is_number (power_w d1)
                then d1 \<lparr> power_w := divided (power_w d1) 10 \<rparr>
                else d1)
      in if is_number (energy d2)
         then d2 \<lparr> energy := divided (energy d2) 1000 \<rparr>
         else d2)"

definition handleDeviceData_single :: "jsval \<Rightarrow> string \<Rightarrow> single_server \<Rightarrow> single_server" where
  "handleDeviceData_single data now st =
     (if nullish data then st
      else
        let dps = select_dps data;
            d = convert_units_single
              \<lparr> timestamp = now,
                power_state = carried dps ''1'' (power_state (latestDeviceData st)),
                current = carried dps ''18'' (current (latestDeviceData st)),
                power_w = carried dps ''19'' (power_w (latestDeviceData st)),
                voltage = carried dps ''20'' (voltage (latestDeviceData st)),
                energy = carried dps ''22'' (energy (latestDeviceData st)),
                connected = True \<rparr>
        in st \<lparr> latestDeviceData := d,
                written := written st @ [d],
                sent := sent st @ [DataMsg d] \<rparr>)"

text \<open>
  \<open>getDeviceStatusSafe\<close>: \<open>device.get\<close> raced against a 3 second timer that rejects with
  the message \<open>Timeout\<close>.
\<close>

definition getDeviceStatusSafe :: "get_outcome \<Rightarrow> string \<Rightarrow> single_server \<Rightarrow> single_server" where
  "getDeviceStatusSafe result now st =
     (case result of
        GetResolved status \<Rightarrow> handleDeviceData_single status now st
      | GetRejected msg \<Rightarrow>
          if msg \<noteq> ''Timeout''
          then st \<lparr> latestDeviceData := (latestDeviceData st) \<lparr> connected := False \<rparr>,
                    sent := sent st @ [ErrorMsg msg] \<rparr>
          else st)"

definition on_error_single :: "string \<Rightarrow> single_server \<Rightarrow> single_server" where
  "on_error_single msg st =
     st \<lparr> deviceConnected := False,
          latestDeviceData := (latestDeviceData st) \<lparr> connected := False \<rparr>,
          sent := sent st @ [ErrorMsg msg] \<rparr>"

definition on_disconnect_single :: "single_server \<Rightarrow> single_server" where
  "on_disconnect_single st =
     st \<lparr> deviceConnected := False,
          latestDeviceData := (latestDeviceData st) \<lparr> connected := False \<rparr>,
          sent := sent st @ [ConnectionMsg False None],
          retries := retries st @ [5000] \<rparr>"

text \<open>The single-device server as the module is loaded.\<close>

definition initial_single :: "string \<Rightarrow> single_server" where
  "initial_single now =
     \<lparr> latestDeviceData =
         \<lparr> timestamp = now, power_state = JBool False, current = JNum 0,
           power_w = JNum 0, voltage = JNum 0, energy = JNum 0, connected = False \<rparr>,
       deviceConnected = False, sent = [], written = [], retries = [] \<rparr>"

section \<open>A small installation\<close>

text \<open>
  Two configured devices, an enabled plug and a disabled lamp, and the states the server
  passes through when the plug connects and reports its first measurements.
\<close>

definition plug :: device_config where
  "plug = \<lparr> cfg_id = ''device_1'', cfg_name = ''Plug'', cfg_device_id = ''bf01'',
            cfg_device_key = ''k1'', cfg_device_ip = ''10.0.0.2'', cfg_version = ''3.4'',
            cfg_type = ''smart_plug'', cfg_room = ''Lab'', cfg_enabled = JBool True \<rparr>"

definition lamp :: device_config where
  "lamp = \<lparr> cfg_id = ''device_2'', cfg_name = ''Lamp'', cfg_device_id = ''bf02'',
            cfg_device_key = ''k2'', cfg_device_ip = ''10.0.0.3'', cfg_version = ''3.3'',
            cfg_type = ''smart_plug'', cfg_room = ''Hall'', cfg_enabled = JBool False \<rparr>"

definition no_env :: env where
  "no_env = \<lparr> tuya_device_id = [], tuya_device_key = [], tuya_device_ip = [] \<rparr>"

definition booted :: server where
  "booted = connectToAllDevices no_env ''t0'' (initial_server (Configs [plug, lamp]) [])"

definition linked :: server where
  "linked = run [(''t1'', TimerFires 0), (''t2'', ConnectSettles 0 Resolved)] booted"

definition first_report :: jsval where
  "first_report =
     JObj [(''dps'', JObj [(''18'', JNum 1500), (''19'', JNum 330), (''20'', JNum 2200),
                           (''22'', JNum 5000)])]"

definition measured :: server where
  "measured = step ''t3'' (DataEvent 0 first_report) linked"

text \<open>
  The same plug known from the environment only: there is no \<open>devices.json\<close>, the
  fallback of \<open>loadDeviceConfig\<close> registers it as \<open>device_1\<close>, it connects and reports.
\<close>

definition plug_env :: env where
  "plug_env = \<lparr> tuya_device_id = ''bf01'', tuya_device_key = ''k1'',
                  tuya_device_ip = ''10.0.0.2'' \<rparr>"

definition fallback_measured :: server where
  "fallback_measured =
     run [(''t1'', TimerFires 0), (''t2'', ConnectSettles 0 Resolved),
          (''t3'', DataEvent 0 first_report)]
       (connectToAllDevices plug_env ''t0'' (initial_server NoFile []))"

text \<open>
  A run in which the plug connects, reports, is toggled, loses its link, fails to
  reconnect and is removed, while requests of all kinds name the lamp.
\<close>

definition busy_day :: "(string \<times> event) list" where
  "busy_day =
     [(''t1'', TimerFires 0), (''t2'', ConnectSettles 0 Resolved),
      (''t3'', DataEvent 0 first_report), (''t4'', WsToggle ''device_2''),
      (''t5'', RestToggle ''device_2''), (''t6'', AddDevice lamp),
      (''t7'', WsToggle ''device_1''), (''t8'', SetSettles 0 Resolved),
      (''t9'', RefreshStep ''device_2'' True Resolved), (''t10'', DisconnectEvent 0),
      (''t11'', TimerFires 0), (''t12'', ConnectSettles 0 (Rejected ''timeout'')),
      (''t13'', RemoveDevice ''device_1'')]"

section \<open>Processing of raw data events\<close>

lemmas op_defs = run_def step_def connectToAllDevices_def loadDeviceConfig_def
  initial_server_def register_device_def initializeCSVWriter_def initializeDeviceData_def
  csv_path_def connectToDevice_begin_def connectToDevice_finish_def without_def
  set_connected_def handleDeviceData_def on_error_def on_disconnect_def reading_of_def
  select_dps_def merge_points_def carried_def convert_units_def

lemmas ex_defs = plug_def lamp_def no_env_def booted_def linked_def first_report_def
  measured_def

lemmas cmd_defs = ws_toggle_begin_def ws_toggle_finish_def rest_toggle_begin_def
  rest_toggle_finish_def add_device_def remove_device_def refresh_device_def

lemma convert_units_fields:
  "voltage (convert_units u) = (if is_number (voltage u) then divided (voltage u) 10 else voltage u)"
  "power_w (convert_units u) = (if is_number (power_w u) then divided (power_w u) 10 else power_w u)"
  "current (convert_units u) =
     (if is_number (current u) \<and> exceeds (current u) 1000 then divided (current u) 10 else current u)"
  "energy (convert_units u) = (if is_number (energy u) then divided (energy u) 1000 else energy u)"
  "power_state (convert_units u) = power_state u"
  "connected (convert_units u) = connected u"
  "timestamp (convert_units u) = timestamp u"
  by (auto simp add: convert_units_def Let_def)

lemma convert_units_single_fields:
  "voltage (convert_units_single u) = (if is_number (voltage u) then divided (voltage u) 10 else voltage u)"
  "power_w (convert_units_single u) = (if is_number (power_w u) then divided (power_w u) 10 else power_w u)"
  "current (convert_units_single u) = current u"
  "energy (convert_units_single u) = (if is_number (energy u) then divided (energy u) 1000 else energy u)"
  "power_state (convert_units_single u) = power_state u"
  "connected (convert_units_single u) = connected u"
  "timestamp (convert_units_single u) = timestamp u"
  by (auto simp add: convert_units_single_def Let_def)

lemma handleDeviceData_reading:
  assumes "map_of (deviceData st) deviceId = Some a" and "\<not> nullish data"
  shows "reading_of (handleDeviceData deviceId data now st) deviceId =
           Some (convert_units (merge_points (select_dps data) now (heap st ! a)))"
  using assms
  by (simp add: handleDeviceData_def reading_of_def Let_def update_conv' split: option.split)


text \<open>
  C10. A data event for a device id that has no entry in \<open>deviceData\<close> changes nothing:
  no reading is created or altered, nothing is broadcast and nothing is written to a CSV
  file. The whole server state stays as it was, for every payload.
\<close>

theorem unknown_device_data_discarded:
  assumes "map_of (deviceData st) deviceId = None"
  shows "handleDeviceData deviceId data now st = st"
  using assms by (simp add: handleDeviceData_def)

theorem unknown_device_data_discarded_witness:
  "map_of (deviceData (initial_server NoFile [])) ''ghost'' = None \<and>
   handleDeviceData ''ghost'' (JObj [(''dps'', JObj [(''1'', JBool True)])]) ''t1''
     (initial_server NoFile []) = initial_server NoFile []"
proof -
  have h: "map_of (deviceData (initial_server NoFile [])) ''ghost'' = None"
    by (simp add: initial_server_def)
  show ?thesis
    using h unknown_device_data_discarded [OF h] by simp
qed

text \<open>
  C2, as claimed: a field that a partial update does not mention keeps its value. The
  source carries the previous value forward and then applies the unit conversion to it
  once more. Below, the plug has reported 220 V, 150 mA and 5 kWh; an update that carries
  only the switch state leaves 22 V and 0.005 kWh in the reading.
\<close>

theorem carried_voltage_divided_again:
  "map_option (\<lambda>r. (power_state r, current r, voltage r, energy r)) (reading_of measured ''device_1'') =
     Some (JBool False, JNum 150, JNum 220, JNum 5) \<and>
   map_option (\<lambda>r. (power_state r, current r, voltage r, energy r))
     (reading_of (handleDeviceData ''device_1'' (JObj [(''dps'', JObj [(''1'', JBool True)])])
                    ''t4'' measured) ''device_1'') =
     Some (JBool True, JNum 150, JNum 22, JNum (5 / 1000))"
  by (simp add: ex_defs op_defs Let_def)


text \<open>
  C8, as claimed: every numeric raw current is divided by 10. A raw current of 500 is
  stored as 500.
\<close>

theorem small_current_not_divided:
  "map_option current
     (reading_of (handleDeviceData ''device_1'' (JObj [(''dps'', JObj [(''18'', JNum 500)])])
                    ''t4'' measured) ''device_1'') \<noteq> Some (JNum (500 / 10))"
  by (simp add: ex_defs op_defs Let_def)


text \<open>
  C8, amended: for every numeric raw value present in an update, the voltage is divided
  by 10, the power by 10 and the energy by 1000; the current is divided by 10 only when
  it exceeds 1000 in the multi-device server, and is never divided in the single-device
  server.
\<close>

theorem present_points_converted:
  assumes "map_of (deviceData st) deviceId = Some a" and "\<not> nullish data"
  shows "(\<exists>r. reading_of (handleDeviceData deviceId data now st) deviceId = Some r \<and>
            (\<forall>v. member (select_dps data) ''20'' = JNum v \<longrightarrow> voltage r = JNum (v / 10)) \<and>
            (\<forall>p. member (select_dps data) ''19'' = JNum p \<longrightarrow> power_w r = JNum (p / 10)) \<and>
            (\<forall>e. member (select_dps data) ''22'' = JNum e \<longrightarrow> energy r = JNum (e / 1000)) \<and>
            (\<forall>c. member (select_dps data) ''18'' = JNum c \<longrightarrow>
                   current r = JNum (if 1000 < c then c / 10 else c))) \<and>
         (\<forall>v. member (select_dps data) ''20'' = JNum v \<longrightarrow>
                voltage (latestDeviceData (handleDeviceData_single data now s)) = JNum (v / 10)) \<and>
         (\<forall>p. member (select_dps data) ''19'' = JNum p \<longrightarrow>
                power_w (latestDeviceData (handleDeviceData_single data now s)) = JNum (p / 10)) \<and>
         (\<forall>e. member (select_dps data) ''22'' = JNum e \<longrightarrow>
                energy (latestDeviceData (handleDeviceData_single data now s)) = JNum (e / 1000)) \<and>
         (\<forall>c. member (select_dps data) ''18'' = JNum c \<longrightarrow>
                current (latestDeviceData (handleDeviceData_single data now s)) = JNum c)"
proof -
  have multi: "reading_of (handleDeviceData deviceId data now st) deviceId =
                 Some (convert_units (merge_points (select_dps data) now (heap st ! a)))"
    using assms by (rule handleDeviceData_reading)
  have single: "latestDeviceData (handleDeviceData_single data now s) =
      convert_units_single
        \<lparr> timestamp = now,
          power_state = carried (select_dps data) ''1'' (power_state (latestDeviceData s)),
          current = carried (select_dps data) ''18'' (current (latestDeviceData s)),
          power_w = carried (select_dps data) ''19'' (power_w (latestDeviceData s)),
          voltage = carried (select_dps data) ''20'' (voltage (latestDeviceData s)),
          energy = carried (select_dps data) ''22'' (energy (latestDeviceData s)),
          connected = True \<rparr>"
    using assms(2) by (simp add: handleDeviceData_single_def Let_def)
  show ?thesis
    unfolding multi single
    by (simp add: convert_units_fields convert_units_single_fields merge_points_def carried_def)
qed

theorem present_points_converted_witness:
  "map_of (deviceData linked) ''device_1'' = Some 0 \<and> \<not> nullish first_report \<and>
   map_option (\<lambda>r. (voltage r, power_w r, energy r, current r))
     (reading_of (handleDeviceData ''device_1'' first_report ''t3'' linked) ''device_1'') =
     Some (JNum 220, JNum 33, JNum 5, JNum 150) \<and>
   current (latestDeviceData (handleDeviceData_single first_report ''t3'' (initial_single ''t0''))) =
     JNum 1500"
proof -
  have h1: "map_of (deviceData linked) ''device_1'' = Some 0"
    by (simp add: ex_defs op_defs Let_def)
  have h2: "\<not> nullish first_report"
    by (simp add: first_report_def)
  have m: "member (select_dps first_report) ''20'' = JNum 2200"
    "member (select_dps first_report) ''19'' = JNum 330"
    "member (select_dps first_report) ''22'' = JNum 5000"
    "member (select_dps first_report) ''18'' = JNum 1500"
    by (simp_all add: first_report_def select_dps_def)
  show ?thesis
    using h1 h2 m present_points_converted [OF h1 h2, of "''t3''" "initial_single ''t0''"]
    by auto
qed


section \<open>Commands on unknown and duplicate ids\<close>

text \<open>
  C9, as claimed: remove and toggle on an id that matches no configured device are
  rejected with NotFound. Removing the unknown id \<open>ghost\<close> reports success, and toggling
  it is rejected as not connected.
\<close>

theorem remove_unknown_reports_success:
  "snd (remove_device ''ghost'' measured) = Success \<and>
   snd (remove_device ''ghost'' measured) \<noteq> Status404 ''Device not found'' \<and>
   snd (rest_toggle_begin ''ghost'' measured) = Inl (Status400 ''Device not connected'')"
  by (simp add: ex_defs op_defs cmd_defs Let_def)

lemma filter_other_ids:
  "deviceId \<notin> cfg_id ` set cs \<Longrightarrow> filter (\<lambda>d. cfg_id d \<noteq> deviceId) cs = cs"
  by (induction cs) auto

text \<open>
  C9, amended: for a device id that matches no configured device (no TuyAPI instance, no
  reading, no writer, no entry of the persisted configuration), toggle is rejected with
  the error \<open>Device not connected\<close> on both paths and changes nothing; remove is not
  rejected: unless \<open>devices.json\<close> fails to parse, it reports success and broadcasts
  \<open>device_removed\<close>, and it changes no instance, reading, writer or configuration entry.
\<close>

theorem unknown_id_commands:
  assumes "map_of (devices st) deviceId = None"
    and "map_of (deviceData st) deviceId = None"
    and "map_of (deviceWriters st) deviceId = None"
    and "deviceId \<notin> cfg_id ` set (persisted st)"
  shows "rest_toggle_begin deviceId st = (st, Inl (Status400 ''Device not connected'')) \<and>
         ws_toggle_begin deviceId st =
           (st, if deviceId = [] then None else Some (WsError deviceId ''Device not connected'')) \<and>
         remove_device deviceId st =
           (case config_file st of
              Unparsable msg \<Rightarrow> (st, Status500 msg)
            | _ \<Rightarrow> (st \<lparr> broadcasts := broadcasts st @ [DeviceRemoved deviceId] \<rparr>, Success))"
proof -
  have k: "deviceId \<notin> fst ` set (deviceData st)" "deviceId \<notin> fst ` set (deviceWriters st)"
    using assms(2,3) by (simp_all add: map_of_eq_None_iff)
  have rest: "rest_toggle_begin deviceId st = (st, Inl (Status400 ''Device not connected''))"
    using assms(1) by (simp add: rest_toggle_begin_def)
  have ws: "ws_toggle_begin deviceId st =
           (st, if deviceId = [] then None else Some (WsError deviceId ''Device not connected''))"
    using assms(1) by (simp add: ws_toggle_begin_def)
  have rm: "remove_device deviceId st =
           (case config_file st of
              Unparsable msg \<Rightarrow> (st, Status500 msg)
            | _ \<Rightarrow> (st \<lparr> broadcasts := broadcasts st @ [DeviceRemoved deviceId] \<rparr>, Success))"
    using assms(1,4) k
    by (cases "config_file st") (simp_all add: remove_device_def persisted_def filter_other_ids)
  show ?thesis using rest ws rm by simp
qed


theorem unknown_id_commands_witness:
  "map_of (devices measured) ''ghost'' = None \<and>
   map_of (deviceData measured) ''ghost'' = None \<and>
   map_of (deviceWriters measured) ''ghost'' = None \<and>
   ''ghost'' \<notin> cfg_id ` set (persisted measured) \<and>
   rest_toggle_begin ''ghost'' measured = (measured, Inl (Status400 ''Device not connected'')) \<and>
   ws_toggle_begin ''ghost'' measured =
     (measured, Some (WsError ''ghost'' ''Device not connected'')) \<and>
   remove_device ''ghost'' measured =
     (measured \<lparr> broadcasts := broadcasts measured @ [DeviceRemoved ''ghost''] \<rparr>, Success)"
proof -
  have h1: "map_of (devices measured) ''ghost'' = None"
    by (simp add: ex_defs op_defs Let_def)
  have h2: "map_of (deviceData measured) ''ghost'' = None"
    by (simp add: ex_defs op_defs Let_def)
  have h3: "map_of (deviceWriters measured) ''ghost'' = None"
    by (simp add: ex_defs op_defs Let_def)
  have h4: "''ghost'' \<notin> cfg_id ` set (persisted measured)"
    by (simp add: persisted_def ex_defs op_defs Let_def)
  have f: "config_file measured = Configs [plug, lamp]"
    by (simp add: ex_defs op_defs Let_def)
  show ?thesis
    using h1 h2 h3 h4 unknown_id_commands [OF h1 h2 h3 h4]
    by (simp add: f)
qed

text \<open>
  An add whose id is the id of an entry of \<open>devices.json\<close> is refused and changes
  nothing.
\<close>

lemma add_device_known_id:
  assumes "cfg_id c \<in> cfg_id ` set (persisted st)"
  shows "add_device c now st =
           (st, Status400 (if missing_fields c then ''Missing required fields''
                           else ''Device ID already exists''))"
proof -
  obtain cs where f: "config_file st = Configs cs" and m: "cfg_id c \<in> cfg_id ` set cs"
    using assms by (cases "config_file st") (auto simp add: persisted_def)
  have "find (\<lambda>d. cfg_id d = cfg_id c) cs \<noteq> None"
    using m by (auto simp add: find_None_iff)
  then show ?thesis
    using f by (simp add: add_device_def missing_fields_def)
qed

text \<open>
  C6, as claimed: an add whose id equals the id of an already registered device returns
  the duplicate-id error and leaves the session, its reading and the persisted
  configuration as they were. The check under \<open>Check if device already exists\<close> reads
  \<open>devices.json\<close> only. Below, \<open>device_1\<close> is registered from the environment, is
  connected and has reported 150 mA, 220 V and 5 kWh, and no \<open>devices.json\<close> exists: an
  add with the id \<open>device_1\<close> and all required fields is answered with success, the
  reading is replaced by a fresh one with zeros and connected false, a \<open>devices.json\<close>
  holding the new entry is written, and a second connection to the device is started.
\<close>

theorem fallback_device_added_again:
  "config_file fallback_measured = NoFile \<and>
   map_of (devices fallback_measured) ''device_1'' = Some 0 \<and>
   map_option (\<lambda>r. (current r, voltage r, energy r, connected r))
     (reading_of fallback_measured ''device_1'') = Some (JNum 150, JNum 220, JNum 5, True) \<and>
   cfg_id plug = ''device_1'' \<and> \<not> missing_fields plug \<and>
   snd (add_device plug ''t4'' fallback_measured) = AddSuccess plug \<and>
   snd (add_device plug ''t4'' fallback_measured) \<noteq> Status400 ''Device ID already exists'' \<and>
   map_option (\<lambda>r. (current r, voltage r, energy r, connected r))
     (reading_of (fst (add_device plug ''t4'' fallback_measured)) ''device_1'') =
     Some (JNum 0, JNum 0, JNum 0, False) \<and>
   config_file (fst (add_device plug ''t4'' fallback_measured)) = Configs [plug] \<and>
   link_log (fst (add_device plug ''t4'' fallback_measured)) =
     [LinkConnect ''device_1'', LinkConnect ''device_1'']"
  by (simp add: fallback_measured_def plug_env_def missing_fields_def ex_defs op_defs cmd_defs
        Let_def)

section \<open>Toggle\<close>

text \<open>
  C1, as claimed: of two toggles issued for one device before the first completes, exactly
  one is forwarded to the link and the other gets Busy. Both toggles of the connected plug
  are accepted, and both \<open>set\<close> commands reach the link.
\<close>

theorem second_toggle_also_forwarded:
  "snd (ws_toggle_begin ''device_1'' linked) = None \<and>
   snd (ws_toggle_begin ''device_1'' (fst (ws_toggle_begin ''device_1'' linked))) = None \<and>
   link_log (fst (ws_toggle_begin ''device_1'' (fst (ws_toggle_begin ''device_1'' linked)))) =
     [LinkConnect ''device_1'', LinkSet ''device_1'' (JBool True), LinkSet ''device_1'' (JBool True)]"
  by (simp add: ex_defs op_defs cmd_defs Let_def)

text \<open>
  C1, amended: for a connected device, a second toggle issued while the first \<open>set\<close> is
  still in flight is accepted like the first: each forwards its own \<open>set\<close> command to the
  link, both with the inverse of the stored power state, and neither gets an error. This
  holds on the WebSocket path and on the REST path.
\<close>

theorem toggles_in_flight_not_serialized:
  assumes "deviceId \<noteq> []"
    and "map_of (devices st) deviceId = Some device"
    and "map_of (deviceData st) deviceId = Some a"
    and "connected (heap st ! a)"
  shows "snd (ws_toggle_begin deviceId st) = None \<and>
         snd (ws_toggle_begin deviceId (fst (ws_toggle_begin deviceId st))) = None \<and>
         link_log (fst (ws_toggle_begin deviceId (fst (ws_toggle_begin deviceId st)))) =
           link_log st @ [LinkSet deviceId (JBool (\<not> truthy (power_state (heap st ! a)))),
                          LinkSet deviceId (JBool (\<not> truthy (power_state (heap st ! a))))] \<and>
         snd (rest_toggle_begin deviceId st) =
           Inr (JBool (\<not> truthy (power_state (heap st ! a)))) \<and>
         snd (rest_toggle_begin deviceId (fst (rest_toggle_begin deviceId st))) =
           Inr (JBool (\<not> truthy (power_state (heap st ! a)))) \<and>
         link_log (fst (rest_toggle_begin deviceId (fst (rest_toggle_begin deviceId st)))) =
           link_log st @ [LinkSet deviceId (JBool (\<not> truthy (power_state (heap st ! a)))),
                          LinkSet deviceId (JBool (\<not> truthy (power_state (heap st ! a))))]"
  using assms by (simp add: ws_toggle_begin_def rest_toggle_begin_def Let_def)

theorem toggles_in_flight_not_serialized_witness:
  "''device_1'' \<noteq> [] \<and> map_of (devices linked) ''device_1'' = Some 0 \<and>
   map_of (deviceData linked) ''device_1'' = Some 0 \<and> connected (heap linked ! 0) \<and>
   link_log (fst (rest_toggle_begin ''device_1'' (fst (rest_toggle_begin ''device_1'' linked)))) =
     link_log linked @ [LinkSet ''device_1'' (JBool True), LinkSet ''device_1'' (JBool True)]"
proof -
  have h1: "''device_1'' \<noteq> []" by simp
  have h2: "map_of (devices linked) ''device_1'' = Some 0"
    by (simp add: ex_defs op_defs Let_def)
  have h3: "map_of (deviceData linked) ''device_1'' = Some 0"
    by (simp add: ex_defs op_defs Let_def)
  have h4: "connected (heap linked ! 0)"
    by (simp add: ex_defs op_defs Let_def)
  have p: "power_state (heap linked ! 0) = JBool False"
    by (simp add: ex_defs op_defs Let_def)
  show ?thesis
    using h2 h3 h4 toggles_in_flight_not_serialized [OF h1 h2 h3 h4]
    by (simp add: p)
qed

text \<open>
  C3, as claimed: the reading's power state becomes true before the link confirms the
  \<open>set\<close>. After the toggle of the connected plug has issued its \<open>set\<close>, and before that
  call settles, the stored power state is still false.
\<close>

theorem reading_unchanged_while_set_in_flight:
  "link_log (fst (ws_toggle_begin ''device_1'' linked)) =
     [LinkConnect ''device_1'', LinkSet ''device_1'' (JBool True)] \<and>
   map_option power_state (reading_of (fst (ws_toggle_begin ''device_1'' linked)) ''device_1'') =
     Some (JBool False) \<and>
   map_option power_state (reading_of (fst (ws_toggle_begin ''device_1'' linked)) ''device_1'') \<noteq>
     Some (JBool True)"
  by (simp add: ex_defs op_defs cmd_defs Let_def)

text \<open>
  C3, amended: for a connected device whose allocated reading has power state false, a
  toggle issues exactly one \<open>set\<close> command, carrying true, and leaves the reading as it is
  while the command is in flight. When the \<open>set\<close> resolves, the WebSocket path stores
  power state true and the new timestamp and broadcasts the reading, and the REST path
  answers success with new state true. When the \<open>set\<close> is rejected, the WebSocket path
  changes nothing and sends an error.
\<close>

theorem toggle_off_device:
  assumes "deviceId \<noteq> []"
    and "map_of (devices st) deviceId = Some device"
    and "map_of (deviceData st) deviceId = Some a"
    and "a < length (heap st)"
    and "connected (heap st ! a)"
    and "power_state (heap st ! a) = JBool False"
  shows "ws_toggle_begin deviceId st =
           (st \<lparr> inflight := inflight st @
                    [\<lparr> ps_deviceId = deviceId, ps_currentData = a, ps_newState = JBool True \<rparr>],
                  link_log := link_log st @ [LinkSet deviceId (JBool True)] \<rparr>, None) \<and>
         reading_of (fst (ws_toggle_begin deviceId st)) deviceId = reading_of st deviceId \<and>
         reading_of (fst (ws_toggle_finish
                            \<lparr> ps_deviceId = deviceId, ps_currentData = a, ps_newState = JBool True \<rparr>
                            Resolved now (fst (ws_toggle_begin deviceId st)))) deviceId =
           Some ((heap st ! a) \<lparr> timestamp := now, power_state := JBool True \<rparr>) \<and>
         broadcasts (fst (ws_toggle_finish
                            \<lparr> ps_deviceId = deviceId, ps_currentData = a, ps_newState = JBool True \<rparr>
                            Resolved now (fst (ws_toggle_begin deviceId st)))) =
           broadcasts st @
             [DeviceData deviceId ((heap st ! a) \<lparr> timestamp := now, power_state := JBool True \<rparr>)] \<and>
         ws_toggle_finish
             \<lparr> ps_deviceId = deviceId, ps_currentData = a, ps_newState = JBool True \<rparr>
             (Rejected msg) now (fst (ws_toggle_begin deviceId st)) =
           (fst (ws_toggle_begin deviceId st),
            Some (WsError deviceId (''Failed to toggle device: '' @ msg))) \<and>
         rest_toggle_begin deviceId st =
           (st \<lparr> link_log := link_log st @ [LinkSet deviceId (JBool True)] \<rparr>, Inr (JBool True)) \<and>
         rest_toggle_finish deviceId (JBool True) Resolved = ToggleSuccess deviceId (JBool True)"
proof -
  have b: "ws_toggle_begin deviceId st =
           (st \<lparr> inflight := inflight st @
                    [\<lparr> ps_deviceId = deviceId, ps_currentData = a, ps_newState = JBool True \<rparr>],
                  link_log := link_log st @ [LinkSet deviceId (JBool True)] \<rparr>, None)"
    using assms by (simp add: ws_toggle_begin_def Let_def)
  have r: "rest_toggle_begin deviceId st =
           (st \<lparr> link_log := link_log st @ [LinkSet deviceId (JBool True)] \<rparr>, Inr (JBool True))"
    using assms by (simp add: rest_toggle_begin_def Let_def)
  show ?thesis
    unfolding b r using assms(3,4)
    by (simp add: ws_toggle_finish_def rest_toggle_finish_def reading_of_def Let_def update_conv')
qed

theorem toggle_off_device_witness:
  "''device_1'' \<noteq> [] \<and> map_of (devices linked) ''device_1'' = Some 0 \<and>
   map_of (deviceData linked) ''device_1'' = Some 0 \<and> 0 < length (heap linked) \<and>
   connected (heap linked ! 0) \<and> power_state (heap linked ! 0) = JBool False \<and>
   map_option power_state
     (reading_of (fst (ws_toggle_finish
                         \<lparr> ps_deviceId = ''device_1'', ps_currentData = 0, ps_newState = JBool True \<rparr>
                         Resolved ''t3'' (fst (ws_toggle_begin ''device_1'' linked)))) ''device_1'') =
     Some (JBool True) \<and>
   rest_toggle_begin ''device_1'' linked =
     (linked \<lparr> link_log := link_log linked @ [LinkSet ''device_1'' (JBool True)] \<rparr>,
      Inr (JBool True))"
proof -
  have h1: "''device_1'' \<noteq> []" by simp
  have h2: "map_of (devices linked) ''device_1'' = Some 0"
    by (simp add: ex_defs op_defs Let_def)
  have h3: "map_of (deviceData linked) ''device_1'' = Some 0"
    by (simp add: ex_defs op_defs Let_def)
  have h4: "0 < length (heap linked)"
    by (simp add: ex_defs op_defs Let_def)
  have h5: "connected (heap linked ! 0)"
    by (simp add: ex_defs op_defs Let_def)
  have h6: "power_state (heap linked ! 0) = JBool False"
    by (simp add: ex_defs op_defs Let_def)
  note t = toggle_off_device [OF h1 h2 h3 h4 h5 h6, where now = "''t3''" and msg = "''timeout''"]
  have c3: "reading_of (fst (ws_toggle_finish
                         \<lparr> ps_deviceId = ''device_1'', ps_currentData = 0, ps_newState = JBool True \<rparr>
                         Resolved ''t3'' (fst (ws_toggle_begin ''device_1'' linked)))) ''device_1'' =
            Some ((heap linked ! 0) \<lparr> timestamp := ''t3'', power_state := JBool True \<rparr>)"
    using t by blast
  have c6: "rest_toggle_begin ''device_1'' linked =
     (linked \<lparr> link_log := link_log linked @ [LinkSet ''device_1'' (JBool True)] \<rparr>,
      Inr (JBool True))"
    using t by blast
  show ?thesis
    using h2 h3 h4 h5 h6 c3 c6 by simp
qed

section \<open>Polling and link failures\<close>

text \<open>
  C7. A poll that times out is ignored. In the single-device server
  \<open>getDeviceStatusSafe\<close> leaves the whole state as it is on a timeout; the connected flag
  is cleared by a rejection exactly when its message is not \<open>Timeout\<close>, and no rejection
  schedules a reconnect or clears \<open>deviceConnected\<close>. In the multi-device server a
  rejected refresh behaves as a resolved one, and a refresh changes nothing but the log of
  link commands. A connection attempt that is rejected, by a timeout or otherwise, does
  schedule a retry.
\<close>

theorem poll_timeout_ignored:
  "getDeviceStatusSafe (GetRejected ''Timeout'') now s = s \<and>
   connected (latestDeviceData (getDeviceStatusSafe (GetRejected msg) now s)) =
     (if msg = ''Timeout'' then connected (latestDeviceData s) else False) \<and>
   retries (getDeviceStatusSafe (GetRejected msg) now s) = retries s \<and>
   deviceConnected (getDeviceStatusSafe (GetRejected msg) now s) = deviceConnected s \<and>
   refresh_device deviceId isConnected (Rejected msg) st =
     refresh_device deviceId isConnected Resolved st \<and>
   (refresh_device deviceId isConnected (Rejected msg) st) \<lparr> link_log := link_log st \<rparr> = st \<and>
   timers (connectToDevice_finish c (Rejected msg) st) = timers st @ [(15000, c)]"
  by (simp add: getDeviceStatusSafe_def refresh_device_def connectToDevice_finish_def
        set_connected_def Let_def split: option.split)

lemma single_server_error_keeps_metrics:
  "latestDeviceData (on_error_single msg s) = (latestDeviceData s) \<lparr> connected := False \<rparr>"
  "latestDeviceData (on_disconnect_single s) = (latestDeviceData s) \<lparr> connected := False \<rparr>"
  by (simp_all add: on_error_single_def on_disconnect_single_def)

text \<open>
  C4, as claimed: when the link fails, the reading keeps its current, voltage and energy
  and only the connected flag flips. The \<open>error\<close> and \<open>disconnect\<close> listeners of the
  multi-device server write back the object they captured when the connection was made:
  the plug that has reported 150 mA, 220 V and 5 kWh is left with zeros.
\<close>

theorem error_event_restores_stale_reading:
  "map_option (\<lambda>r. (current r, voltage r, energy r, connected r))
     (reading_of measured ''device_1'') = Some (JNum 150, JNum 220, JNum 5, True) \<and>
   map_option (\<lambda>r. (current r, voltage r, energy r, connected r))
     (reading_of (step ''t4'' (ErrorEvent 0 ''ECONNRESET'') measured) ''device_1'') =
     Some (JNum 0, JNum 0, JNum 0, False) \<and>
   map_option (\<lambda>r. (current r, voltage r, energy r, connected r))
     (reading_of (step ''t4'' (DisconnectEvent 0) measured) ''device_1'') =
     Some (JNum 0, JNum 0, JNum 0, False)"
  by (simp add: ex_defs op_defs Let_def)


section \<open>Disabled devices\<close>

lemma set_without: "set (without k xs) \<subseteq> set xs"
  unfolding without_def using set_take_subset [of k xs] set_drop_subset [of "Suc k" xs] by auto

lemma dormant_set_connected:
  assumes "dormant D a r st" and "deviceId \<noteq> D" and "c \<noteq> Some a"
  shows "dormant D a r (set_connected deviceId c flag st)"
  using assms
  by (cases c) (auto simp add: dormant_def set_connected_def update_conv' persisted_def)

lemma dormant_handleDeviceData:
  assumes "dormant D a r st" and "deviceId \<noteq> D"
  shows "dormant D a r (handleDeviceData deviceId data now st)"
  using assms
  by (auto simp add: dormant_def handleDeviceData_def Let_def update_conv' persisted_def nth_append
           split: option.split)

lemma dormant_connectToDevice_begin:
  assumes "dormant D a r st" and "cfg_id c \<noteq> D"
  shows "dormant D a r (connectToDevice_begin c st)"
  using assms
  by (auto simp add: dormant_def connectToDevice_begin_def persisted_def)


lemma dormant_frame:
  assumes "dormant D a r st"
  shows "dormant D a r (st \<lparr> broadcasts := b \<rparr>)"
    and "dormant D a r (st \<lparr> csv_log := l \<rparr>)"
    and "cfg_id c \<noteq> D \<Longrightarrow> dormant D a r (st \<lparr> timers := timers st @ [(n, c)] \<rparr>)"
    and "set ts \<subseteq> set (timers st) \<Longrightarrow> dormant D a r (st \<lparr> timers := ts \<rparr>)"
    and "set cs \<subseteq> set (connecting st) \<Longrightarrow> dormant D a r (st \<lparr> connecting := cs \<rparr>)"
    and "set ps \<subseteq> set (inflight st) \<Longrightarrow> dormant D a r (st \<lparr> inflight := ps \<rparr>)"
    and "D \<notin> cfg_id ` snd ` set ts \<Longrightarrow>
         dormant D a r (st \<lparr> timers := timers st @ ts, refreshing := f \<rparr>)"
  using assms by (auto simp add: dormant_def persisted_def)

lemma dormant_other_entry:
  assumes "dormant D a r st" and "deviceId \<noteq> D"
  shows "map_of (deviceData st) deviceId \<noteq> Some a"
  using assms by (simp add: dormant_def)

lemma dormant_connectToDevice_finish:
  assumes "dormant D a r st" and "cfg_id c \<noteq> D"
  shows "dormant D a r (connectToDevice_finish c result st)"
proof (cases result)
  case Resolved
  let ?st1 = "st \<lparr> devices := AList.update (cfg_id c) (length (instances st)) (devices st) \<rparr>"
  let ?cd = "map_of (deviceData st) (cfg_id c)"
  have cd: "?cd \<noteq> Some a"
    using assms by (rule dormant_other_entry)
  have d1: "dormant D a r ?st1"
    using assms by (auto simp add: dormant_def update_conv' persisted_def)
  have d2: "dormant D a r (set_connected (cfg_id c) ?cd True ?st1)"
    using d1 assms(2) cd by (rule dormant_set_connected)
  have d3: "dormant D a r
              ((set_connected (cfg_id c) ?cd True ?st1)
                 \<lparr> instances := instances (set_connected (cfg_id c) ?cd True ?st1) @
                                  [\<lparr> inst_config = c, inst_currentData = ?cd \<rparr>] \<rparr>)"
    using d2 assms(2) cd by (auto simp add: dormant_def persisted_def)
  show ?thesis
    using d3 Resolved
    by (simp add: connectToDevice_finish_def Let_def dormant_frame(1))
next
  case (Rejected msg)
  have cd: "map_of (deviceData st) (cfg_id c) \<noteq> Some a"
    using assms by (rule dormant_other_entry)
  have d1: "dormant D a r (set_connected (cfg_id c) (map_of (deviceData st) (cfg_id c)) False st)"
    using assms cd by (rule dormant_set_connected)
  have "dormant D a r
          ((set_connected (cfg_id c) (map_of (deviceData st) (cfg_id c)) False st)
             \<lparr> broadcasts := b \<rparr>
             \<lparr> timers := timers ((set_connected (cfg_id c) (map_of (deviceData st) (cfg_id c))
                                     False st) \<lparr> broadcasts := b \<rparr>) @ [(15000, c)] \<rparr>)" for b
    by (rule dormant_frame(3) [OF dormant_frame(1) [OF d1] assms(2)])
  then show ?thesis
    using Rejected by (simp add: connectToDevice_finish_def Let_def)
qed

lemma dormant_instance:
  assumes "dormant D a r st" and "inst \<in> set (instances st)"
  shows "cfg_id (inst_config inst) \<noteq> D" and "inst_currentData inst \<noteq> Some a"
proof -
  have "D \<notin> cfg_id ` inst_config ` set (instances st)"
    and "Some a \<notin> inst_currentData ` set (instances st)"
    using assms(1) by (simp_all add: dormant_def)
  then show "cfg_id (inst_config inst) \<noteq> D" and "inst_currentData inst \<noteq> Some a"
    using assms(2) by force+
qed

lemma dormant_members:
  assumes "dormant D a r st"
  shows "t \<in> set (timers st) \<Longrightarrow> cfg_id (snd t) \<noteq> D"
    and "c \<in> set (connecting st) \<Longrightarrow> cfg_id c \<noteq> D"
    and "p \<in> set (inflight st) \<Longrightarrow> ps_deviceId p \<noteq> D"
    and "p \<in> set (inflight st) \<Longrightarrow> ps_currentData p \<noteq> a"
proof -
  have "D \<notin> cfg_id ` snd ` set (timers st)" and "D \<notin> cfg_id ` set (connecting st)"
    and "D \<notin> ps_deviceId ` set (inflight st)" and "a \<notin> ps_currentData ` set (inflight st)"
    using assms by (simp_all add: dormant_def)
  then show "t \<in> set (timers st) \<Longrightarrow> cfg_id (snd t) \<noteq> D"
    and "c \<in> set (connecting st) \<Longrightarrow> cfg_id c \<noteq> D"
    and "p \<in> set (inflight st) \<Longrightarrow> ps_deviceId p \<noteq> D"
    and "p \<in> set (inflight st) \<Longrightarrow> ps_currentData p \<noteq> a"
    by force+
qed

lemma dormant_on_error:
  assumes "dormant D a r st" and "inst \<in> set (instances st)"
  shows "dormant D a r (on_error inst msg st)"
proof -
  have "dormant D a r (set_connected (cfg_id (inst_config inst)) (inst_currentData inst) False st)"
    using assms(1) dormant_instance [OF assms] by (rule dormant_set_connected)
  then show ?thesis
    by (simp add: on_error_def Let_def dormant_frame(1))
qed

lemma dormant_on_disconnect:
  assumes "dormant D a r st" and "inst \<in> set (instances st)"
  shows "dormant D a r (on_disconnect inst st)"
proof -
  have "dormant D a r (set_connected (cfg_id (inst_config inst)) (inst_currentData inst) False st)"
    using assms(1) dormant_instance [OF assms] by (rule dormant_set_connected)
  then have "dormant D a r
          ((set_connected (cfg_id (inst_config inst)) (inst_currentData inst) False st)
             \<lparr> broadcasts := b \<rparr>
             \<lparr> timers := timers ((set_connected (cfg_id (inst_config inst))
                                     (inst_currentData inst) False st) \<lparr> broadcasts := b \<rparr>) @
                          [(10000, inst_config inst)] \<rparr>)" for b
    using dormant_instance(1) [OF assms] dormant_frame(1) dormant_frame(3) by blast
  then show ?thesis
    by (simp add: on_disconnect_def Let_def)
qed

lemma dormant_refresh_device:
  assumes "dormant D a r st"
  shows "dormant D a r (refresh_device deviceId isConnected result st)"
  using assms
  by (auto simp add: dormant_def refresh_device_def persisted_def split: option.split)

lemma dormant_ws_toggle_begin:
  assumes "dormant D a r st" and "\<not> connected r"
  shows "dormant D a r (fst (ws_toggle_begin deviceId st))"
  using assms
  by (auto simp add: dormant_def ws_toggle_begin_def Let_def persisted_def
           split: option.split)

lemma dormant_rest_toggle_begin:
  assumes "dormant D a r st"
  shows "dormant D a r (fst (rest_toggle_begin deviceId st))"
  using assms
  by (auto simp add: dormant_def rest_toggle_begin_def Let_def persisted_def
           split: option.split)

lemma dormant_ws_toggle_finish:
  assumes "dormant D a r st" and "ps_deviceId p \<noteq> D" and "ps_currentData p \<noteq> a"
  shows "dormant D a r (fst (ws_toggle_finish p result now st))"
  using assms
  by (cases result)
     (auto simp add: dormant_def ws_toggle_finish_def Let_def update_conv' persisted_def)

lemma dormant_initializeCSVWriter:
  assumes "dormant D a r st"
  shows "dormant D a r (initializeCSVWriter deviceId st)"
  using assms by (auto simp add: dormant_def initializeCSVWriter_def persisted_def)

lemma dormant_register_device:
  assumes "dormant D a r st" and "cfg_id c \<noteq> D"
  shows "dormant D a r (register_device c now st)"
proof -
  let ?st1 = "st \<lparr> heap := heap st @ [initializeDeviceData c now],
                    deviceData := AList.update (cfg_id c) (length (heap st)) (deviceData st) \<rparr>"
  have d1: "dormant D a r ?st1"
    using assms by (auto simp add: dormant_def update_conv' persisted_def nth_append)
  have d2: "dormant D a r (initializeCSVWriter (cfg_id c) ?st1)"
    using d1 by (rule dormant_initializeCSVWriter)
  have "dormant D a r (s \<lparr> deviceWriters := w \<rparr>)" if "dormant D a r s" for s w
    using that by (auto simp add: dormant_def persisted_def)
  then show ?thesis
    using d2 by (simp add: register_device_def Let_def)
qed

lemma dormant_add_device:
  assumes "dormant D a r st"
  shows "dormant D a r (fst (add_device c now st))"
proof (cases "cfg_id c = D")
  case True
  then have "cfg_id c \<in> cfg_id ` set (persisted st)"
    using assms by (simp add: dormant_def)
  then show ?thesis
    using assms by (simp add: add_device_known_id)
next
  case False
  have grow: "dormant D a r (st \<lparr> config_file := Configs (persisted st @ [n]) \<rparr>)" for n
    using assms by (auto simp add: dormant_def persisted_def)
  have acc: "dormant D a r
               (connectToDevice_begin n
                  (register_device n now (st \<lparr> config_file := Configs (persisted st @ [n]) \<rparr>)))"
    if "cfg_id n = cfg_id c" for n
    using grow that False
    by (simp add: dormant_register_device dormant_connectToDevice_begin)
  show ?thesis
    using assms acc
    by (cases "config_file st") (simp_all add: add_device_def Let_def persisted_def)
qed

lemma dormant_remove_device:
  assumes "dormant D a r st" and "deviceId \<noteq> D"
  shows "dormant D a r (fst (remove_device deviceId st))"
  using assms
  by (cases "config_file st")
     (auto simp add: dormant_def remove_device_def Let_def delete_conv' persisted_def
           split: option.split)

lemma dormant_step:
  assumes "dormant D a r st" and "\<not> connected r" and "ev \<noteq> RemoveDevice D"
  shows "dormant D a r (step now ev st)"
proof (cases ev)
  case (TimerFires k)
  show ?thesis
  proof (cases "k < length (timers st)")
    case True
    then have "cfg_id (snd (timers st ! k)) \<noteq> D"
      using dormant_members(1) [OF assms(1)] by simp
    moreover have "dormant D a r (st \<lparr> timers := without k (timers st) \<rparr>)"
      using assms(1) set_without by (rule dormant_frame(4))
    ultimately show ?thesis
      using TimerFires True by (simp add: step_def dormant_connectToDevice_begin)
  next
    case False
    then show ?thesis using TimerFires assms(1) by (simp add: step_def)
  qed
next
  case (ConnectSettles k result)
  show ?thesis
  proof (cases "k < length (connecting st)")
    case True
    then have "cfg_id (connecting st ! k) \<noteq> D"
      using dormant_members(2) [OF assms(1)] by simp
    moreover have "dormant D a r (st \<lparr> connecting := without k (connecting st) \<rparr>)"
      using assms(1) set_without by (rule dormant_frame(5))
    ultimately show ?thesis
      using ConnectSettles True by (simp add: step_def dormant_connectToDevice_finish)
  next
    case False
    then show ?thesis using ConnectSettles assms(1) by (simp add: step_def)
  qed
next
  case (DataEvent i data)
  then show ?thesis
    using assms(1) dormant_instance(1) [OF assms(1), of "instances st ! i"]
    by (simp add: step_def dormant_handleDeviceData)
next
  case (ErrorEvent i msg)
  then show ?thesis
    using assms(1) by (simp add: step_def dormant_on_error)
next
  case (DisconnectEvent i)
  then show ?thesis
    using assms(1) by (simp add: step_def dormant_on_disconnect)
next
  case (RefreshStep deviceId isConnected result)
  then show ?thesis
    using assms(1) by (simp add: step_def dormant_refresh_device)
next
  case (WsToggle deviceId)
  then show ?thesis
    using assms(1,2) by (simp add: step_def dormant_ws_toggle_begin)
next
  case (SetSettles k result)
  show ?thesis
  proof (cases "k < length (inflight st)")
    case True
    then have "ps_deviceId (inflight st ! k) \<noteq> D" and "ps_currentData (inflight st ! k) \<noteq> a"
      using dormant_members(3,4) [OF assms(1)] by simp_all
    moreover have "dormant D a r (st \<lparr> inflight := without k (inflight st) \<rparr>)"
      using assms(1) set_without by (rule dormant_frame(6))
    ultimately show ?thesis
      using SetSettles True by (simp add: step_def dormant_ws_toggle_finish)
  next
    case False
    then show ?thesis using SetSettles assms(1) by (simp add: step_def)
  qed
next
  case (RestToggle deviceId)
  then show ?thesis
    using assms(1) by (simp add: step_def dormant_rest_toggle_begin)
next
  case (AddDevice c)
  then show ?thesis
    using assms(1) by (simp add: step_def dormant_add_device)
next
  case (RemoveDevice deviceId)
  then show ?thesis
    using assms(1,3) by (simp add: step_def dormant_remove_device)
qed

lemma dormant_run:
  assumes "dormant D a r st" and "\<not> connected r" and "RemoveDevice D \<notin> snd ` set evs"
  shows "dormant D a r (run evs st)"
  using assms
proof (induction evs arbitrary: st)
  case Nil
  then show ?case by (simp add: run_def)
next
  case (Cons x evs)
  obtain now ev where x: "x = (now, ev)" by (cases x)
  have "ev \<noteq> RemoveDevice D"
    using Cons.prems(3) x by auto
  then have d: "dormant D a r (step now ev st)"
    using Cons.prems(1,2) by (simp add: dormant_step)
  have rest: "RemoveDevice D \<notin> snd ` set evs"
    using Cons.prems(3) by auto
  have "dormant D a r (run evs (step now ev st))"
    by (rule Cons.IH [OF d Cons.prems(2) rest])
  then show ?case
    using x by (simp add: run_def)
qed

lemma register_device_frame:
  "devices (register_device c now st) = devices st"
  "timers (register_device c now st) = timers st"
  "connecting (register_device c now st) = connecting st"
  "instances (register_device c now st) = instances st"
  "inflight (register_device c now st) = inflight st"
  "link_log (register_device c now st) = link_log st"
  "config_file (register_device c now st) = config_file st"
  by (simp_all add: register_device_def initializeCSVWriter_def Let_def)

lemma register_device_idle: "idle st \<Longrightarrow> idle (register_device c now st)"
  by (simp add: idle_def register_device_frame)

lemma register_device_persisted: "persisted (register_device c now st) = persisted st"
  by (simp add: persisted_def register_device_frame)

lemma register_device_allocated: "allocated st \<Longrightarrow> allocated (register_device c now st)"
  by (auto simp add: allocated_def register_device_def initializeCSVWriter_def Let_def
        update_conv' less_Suc_eq)

lemma register_device_dormant:
  assumes "allocated st" and "idle st" and "cfg_id d \<in> cfg_id ` set (persisted st)"
  shows "dormant (cfg_id d) (length (heap st)) (initializeDeviceData d now)
           (register_device d now st)"
proof -
  have fresh: "map_of (deviceData st) k \<noteq> Some (length (heap st))" for k
    using assms(1) by (auto simp add: allocated_def)
  show ?thesis
    using assms(2,3) fresh
    by (auto simp add: dormant_def idle_def register_device_def initializeCSVWriter_def Let_def
          update_conv' persisted_def)
qed

lemma dormant_fold_register:
  assumes "dormant D a r st" and "D \<notin> cfg_id ` set cs"
  shows "dormant D a r (fold (\<lambda>c. register_device c now) cs st)"
  using assms
proof (induction cs arbitrary: st)
  case Nil
  then show ?case by simp
next
  case (Cons c cs)
  have "cfg_id c \<noteq> D"
    using Cons.prems(2) by auto
  then have "dormant D a r (register_device c now st)"
    using Cons.prems(1) by (simp add: dormant_register_device)
  then show ?case
    using Cons.prems(2) by (simp add: Cons.IH)
qed

lemma fold_register_dormant:
  assumes "d \<in> set cs" and "distinct (map cfg_id cs)" and "allocated st" and "idle st"
    and "cfg_id d \<in> cfg_id ` set (persisted st)"
  shows "\<exists>a. dormant (cfg_id d) a (initializeDeviceData d now)
               (fold (\<lambda>c. register_device c now) cs st)"
  using assms
proof (induction cs arbitrary: st)
  case Nil
  then show ?case by simp
next
  case (Cons c cs)
  show ?case
  proof (cases "c = d")
    case True
    have "dormant (cfg_id d) (length (heap st)) (initializeDeviceData d now)
            (register_device d now st)"
      using Cons.prems(3,4,5) by (rule register_device_dormant)
    moreover have "cfg_id d \<notin> cfg_id ` set cs"
      using Cons.prems(2) True by simp
    ultimately have "dormant (cfg_id d) (length (heap st)) (initializeDeviceData d now)
            (fold (\<lambda>c. register_device c now) cs (register_device d now st))"
      by (rule dormant_fold_register)
    then show ?thesis
      using True by auto
  next
    case False
    then have "d \<in> set cs"
      using Cons.prems(1) by simp
    moreover have "distinct (map cfg_id cs)"
      using Cons.prems(2) by simp
    ultimately have "\<exists>a. dormant (cfg_id d) a (initializeDeviceData d now)
               (fold (\<lambda>c. register_device c now) cs (register_device c now st))"
      using Cons.prems(3,4,5)
      by (intro Cons.IH)
         (simp_all add: register_device_allocated register_device_idle register_device_persisted)
    then show ?thesis by simp
  qed
qed

lemma staggered_timers:
  "snd ` set (map (\<lambda>(i, c). (i * 2000, c)) (enumerate n xs)) = set xs"
proof -
  have "map snd (map (\<lambda>(i, c). (i * 2000, c)) (enumerate n xs)) = xs"
    by (induction xs arbitrary: n) simp_all
  then show ?thesis
    by (metis set_map)
qed

lemma boot_dormant:
  assumes "distinct (map cfg_id cfgs)" and "d \<in> set cfgs" and "\<not> truthy (cfg_enabled d)"
  shows "\<exists>a. dormant (cfg_id d) a (initializeDeviceData d now)
               (connectToAllDevices e now (initial_server (Configs cfgs) csvs))"
proof -
  let ?st0 = "initial_server (Configs cfgs) csvs"
  let ?st1 = "fold (\<lambda>c. register_device c now) cfgs ?st0"
  let ?enabled = "filter (\<lambda>device. truthy (cfg_enabled device)) cfgs"
  have "allocated ?st0" and "idle ?st0" and "cfg_id d \<in> cfg_id ` set (persisted ?st0)"
    using assms(2) by (simp_all add: allocated_def idle_def persisted_def initial_server_def)
  then obtain a where d1: "dormant (cfg_id d) a (initializeDeviceData d now) ?st1"
    using fold_register_dormant [OF assms(2,1)] by blast
  have "c \<noteq> d" if "c \<in> set ?enabled" for c
    using that assms(3) by auto
  then have "cfg_id c \<noteq> cfg_id d" if "c \<in> set ?enabled" for c
    using that assms(1,2) by (auto simp add: distinct_map inj_on_def)
  then have quiet: "cfg_id d \<notin> cfg_id ` snd ` set (map (\<lambda>(i, c). (i * 2000, c)) (enumerate 0 ?enabled))"
    unfolding staggered_timers by force
  have "dormant (cfg_id d) a (initializeDeviceData d now)
          (?st1 \<lparr> timers := timers ?st1 @ map (\<lambda>(i, c). (i * 2000, c)) (enumerate 0 ?enabled),
                  refreshing := True \<rparr>)"
    using d1 quiet by (rule dormant_frame(7))
  moreover have "cfgs \<noteq> []"
    using assms(2) by auto
  ultimately show ?thesis
    by (auto simp add: connectToAllDevices_def loadDeviceConfig_def Let_def initial_server_def)
qed

text \<open>
  C5. Let the configuration list a device with \<open>enabled\<close> false, with ids that are
  pairwise distinct. After start-up and after any sequence of events that does not remove
  that device, no connection to it has been attempted, no instance is stored for it, no
  connection or timer for it is pending, and its reading is still the one
  \<open>initializeDeviceData\<close> made at start-up, connected false, listed among the snapshots
  of all devices.
\<close>

theorem disabled_device_stays_dormant:
  assumes "distinct (map cfg_id cfgs)" and "d \<in> set cfgs" and "\<not> truthy (cfg_enabled d)"
    and "RemoveDevice (cfg_id d) \<notin> snd ` set evs"
  shows "LinkConnect (cfg_id d) \<notin>
           set (link_log (run evs (connectToAllDevices e now (initial_server (Configs cfgs) csvs)))) \<and>
         map_of (devices (run evs (connectToAllDevices e now (initial_server (Configs cfgs) csvs))))
           (cfg_id d) = None \<and>
         cfg_id d \<notin> cfg_id `
           set (connecting (run evs (connectToAllDevices e now (initial_server (Configs cfgs) csvs)))) \<and>
         cfg_id d \<notin> cfg_id ` snd `
           set (timers (run evs (connectToAllDevices e now (initial_server (Configs cfgs) csvs)))) \<and>
         reading_of (run evs (connectToAllDevices e now (initial_server (Configs cfgs) csvs)))
           (cfg_id d) = Some (initializeDeviceData d now) \<and>
         \<not> connected (initializeDeviceData d now) \<and>
         initializeDeviceData d now \<in>
           set (listSnapshots (run evs (connectToAllDevices e now (initial_server (Configs cfgs) csvs))))"
proof -
  let ?st = "run evs (connectToAllDevices e now (initial_server (Configs cfgs) csvs))"
  have off: "\<not> connected (initializeDeviceData d now)"
    by (simp add: initializeDeviceData_def)
  obtain a where "dormant (cfg_id d) a (initializeDeviceData d now)
                    (connectToAllDevices e now (initial_server (Configs cfgs) csvs))"
    using boot_dormant [OF assms(1,2,3)] by blast
  then have d: "dormant (cfg_id d) a (initializeDeviceData d now) ?st"
    using off assms(4) by (rule dormant_run)
  have entry: "map_of (deviceData ?st) (cfg_id d) = Some a" and obj: "heap ?st ! a = initializeDeviceData d now"
    using d by (simp_all add: dormant_def)
  have "(cfg_id d, a) \<in> set (deviceData ?st)"
    using entry by (rule map_of_SomeD)
  then have listed: "initializeDeviceData d now \<in> set (listSnapshots ?st)"
    using obj by (force simp add: listSnapshots_def)
  have rd: "reading_of ?st (cfg_id d) = Some (initializeDeviceData d now)"
    using entry obj by (simp add: reading_of_def)
  show ?thesis
    using d off listed rd by (simp add: dormant_def)
qed

theorem disabled_device_stays_dormant_witness:
  "distinct (map cfg_id [plug, lamp]) \<and> lamp \<in> set [plug, lamp] \<and>
   \<not> truthy (cfg_enabled lamp) \<and> RemoveDevice (cfg_id lamp) \<notin> snd ` set busy_day \<and>
   LinkConnect (cfg_id lamp) \<notin> set (link_log (run busy_day booted)) \<and>
   reading_of (run busy_day booted) (cfg_id lamp) = Some (initializeDeviceData lamp ''t0'') \<and>
   \<not> connected (initializeDeviceData lamp ''t0'')"
proof -
  have h1: "distinct (map cfg_id [plug, lamp])"
    by (simp add: plug_def lamp_def)
  have h2: "lamp \<in> set [plug, lamp]"
    by simp
  have h3: "\<not> truthy (cfg_enabled lamp)"
    by (simp add: lamp_def)
  have h4: "RemoveDevice (cfg_id lamp) \<notin> snd ` set busy_day"
    by (simp add: busy_day_def lamp_def)
  show ?thesis
    unfolding booted_def
    using h1 h2 h3 h4
      disabled_device_stays_dormant [OF h1 h2 h3 h4, where e = no_env and now = "''t0''" and csvs = "[]"]
    by blast
qed

end
